theory Spec2Isabelle
  imports Main "HOL-Library.Word"
begin

section \<open>The executor of xxl-job-executor-go (executor.go)\<close>

text \<open>
  The executor keeps two task lists, \<open>regList\<close> (registered tasks, by handler name) and
  \<open>runList\<close> (running tasks, by the decimal string of the job id). Both are
  \<open>map[string]*Task\<close>: they hold pointers. A pointer is modelled as an address into an
  explicit store of \<open>Task\<close> objects, so that two list entries holding the same pointer
  share the object, as they do in the program.

  The three HTTP handlers (\<open>runTask\<close>, \<open>killTask\<close>, \<open>taskLog\<close>) and \<open>callback\<close>
  are modelled from the point where their external calls have returned: the handlers take
  the request structure as \<open>json.Unmarshal\<close> left it together with its error, and
  \<open>callback\<close> takes the pair that \<open>e.post\<close> returned. What a handler writes to the
  response writer, the cancel functions it calls and the goroutine it starts are returned
  next to the new executor state. Calls of \<open>log.Println\<close> touch no state and are left out.
  One handler runs at a time (\<open>runTask\<close> and \<open>killTask\<close> hold \<open>e.mu\<close>); the model
  is sequential: every handler and every callback is one step. \<open>callback\<close> does not
  take \<open>e.mu\<close>; its running in the middle of a handler is not modelled. A panic is the
  result \<open>Inl\<close>: it ends the step without a state.
\<close>

subsection \<open>Data\<close>

type_synonym int64 = "64 word"

text \<open>A \<open>*Task\<close>: the address of a Task object in the store.\<close>

type_synonym ref = nat

text \<open>
  The request structures. Their declarations are in another file of the package; the fields
  are those that executor.go reads, with \<open>ExecutorParams\<close> added from the wire format.
  \<open>JobID\<close> is passed to \<open>Int64ToStr\<close>, so it is an int64. \<open>ExecutorTimeout\<close> is the
  integer of the wire format, taken 64 bits wide: the width of Go's \<open>int\<close> on a 64-bit
  platform and of the \<open>time.Duration\<close> it is converted to. The field \<open>JobID\<close> of
  \<open>killReq\<close> is written \<open>killJobID\<close>.
\<close>

record RunReq =
  JobID :: int64
  ExecutorHandler :: string
  ExecutorParams :: string
  ExecutorBlockStrategy :: string
  ExecutorTimeout :: int64

record killReq =
  killJobID :: int64

text \<open>
  \<open>context.Context\<close> values. Every call of \<open>context.WithCancel\<close> or
  \<open>context.WithTimeout\<close> makes a new context; the number is its identity. The duration
  of \<open>WithTimeout\<close> is a \<open>time.Duration\<close>: an int64 count of nanoseconds.
  The cancel function returned with context \<open>n\<close> is \<open>CancelFunc n\<close>.
\<close>

datatype Context = Background | WithCancel nat Context | WithTimeout nat Context int64

datatype CancelFunc = CancelFunc nat

text \<open>The handler function of a task (a Go closure), opaque here.\<close>

datatype TaskFunc = TaskFunc nat

text \<open>
  The Task structure, with the fields executor.go uses. \<open>Id\<close> is written \<open>Id_Task\<close>.
  Interface, pointer and function fields are \<open>None\<close> when nil.
\<close>

record Task =
  Id_Task :: int64
  Name :: string
  Ext :: "Context option"
  Param :: "RunReq option"
  fn :: "TaskFunc option"
  Cancel :: "CancelFunc option"

text \<open>\<open>&Task{}\<close>: the zero value.\<close>

definition zero_Task :: Task where
  "zero_Task = \<lparr>Id_Task = 0, Name = [], Ext = None, Param = None, fn = None, Cancel = None\<rparr>"

text \<open>The response envelope \<open>{code, msg}\<close> written to the caller.\<close>

record res =
  code :: int64
  msg :: string

text \<open>
  The fields of the executor that the handlers use: the two lists, the store of Task
  objects they point into, and the counters that give the next new Task and the next
  new context their identity.
\<close>

record executor =
  regList :: "string \<rightharpoonup> ref"
  runList :: "string \<rightharpoonup> ref"
  store :: "ref \<Rightarrow> Task"
  next_ref :: nat
  next_ctx :: nat

text \<open>What a handler does besides changing the executor.\<close>

datatype effect =
    CancelCalled CancelFunc
  | GoTaskRun ref
  | Post string res

datatype go_panic = NilPointerDereference

record outcome =
  written :: "res option"
  effects :: "effect list"
  after :: executor

type_synonym result = "go_panic + outcome"

subsection \<open>Helpers declared outside executor.go\<close>

text \<open>
  The taskList type and its methods are not in executor.go. A list is the map from keys to
  Task pointers; the four methods follow the contract of the two registries in the spec.
\<close>

text \<open>
  Modelled from the spec: \<open>taskList.Set\<close> is not in executor.go. It is \<open>admit\<close> of the Run
  Registry and \<open>register\<close> of the Task Definition Registry: an upsert, the last write wins.
\<close>

definition taskList_Set :: "(string \<rightharpoonup> ref) \<Rightarrow> string \<Rightarrow> ref \<Rightarrow> (string \<rightharpoonup> ref)" where
  "taskList_Set l k v = l(k \<mapsto> v)"

text \<open>
  Modelled from the spec: \<open>taskList.Get\<close> is not in executor.go. It is \<open>lookup\<close>: the
  instance, or absent (nil, here \<open>None\<close>).
\<close>

definition taskList_Get :: "(string \<rightharpoonup> ref) \<Rightarrow> string \<Rightarrow> ref option" where
  "taskList_Get l k = l k"

text \<open>Modelled from the spec: \<open>taskList.Exists\<close> is not in executor.go. It is \<open>exists\<close>.\<close>

definition taskList_Exists :: "(string \<rightharpoonup> ref) \<Rightarrow> string \<Rightarrow> bool" where
  "taskList_Exists l k = (l k \<noteq> None)"

text \<open>
  Modelled from the spec: \<open>taskList.Del\<close> is not in executor.go. It is \<open>remove\<close>; removing
  an absent key changes nothing.
\<close>

definition taskList_Del :: "(string \<rightharpoonup> ref) \<Rightarrow> string \<Rightarrow> (string \<rightharpoonup> ref)" where
  "taskList_Del l k = l(k := None)"

text \<open>The decimal digits of a natural number, for \<open>Int64ToStr\<close>.\<close>

definition digit_char :: "nat \<Rightarrow> char" where
  "digit_char d = ''0123456789'' ! d"

function digits10 :: "nat \<Rightarrow> string" where
  "digits10 n = (if n < 10 then [digit_char n] else digits10 (n div 10) @ [digit_char (n mod 10)])"
  by pat_completeness auto
termination
  by (relation "measure id") auto

text \<open>
  Modelled from the spec: \<open>Int64ToStr\<close> is not in executor.go. The Run Registry is keyed
  by job identity; the key is the decimal numeral of the signed 64-bit value.
\<close>

definition Int64ToStr :: "int64 \<Rightarrow> string" where
  "Int64ToStr i =
     (if sint i < 0 then CHR ''-'' # digits10 (nat (- sint i)) else digits10 (nat (sint i)))"

text \<open>The value of a decimal digit, to read a numeral back.\<close>

definition digit_val :: "char \<Rightarrow> nat" where
  "digit_val c = of_char c - 48"

text \<open>
  Modelled from the spec: the constant \<open>coverEarly\<close> is not in executor.go. It is the
  value of the blocking-strategy field that selects override-on-conflict. No proof below
  depends on the string chosen, except to evaluate examples.
\<close>

definition coverEarly :: string where
  "coverEarly = ''COVER_EARLY''"

text \<open>
  Modelled from the spec: \<open>returnCall\<close> is not in executor.go. It builds the envelope
  \<open>{code, msg}\<close> that every endpoint answers with, from the code and the message given;
  the request pointer may be nil.
\<close>

definition returnCall :: "RunReq option \<Rightarrow> int64 \<Rightarrow> string \<Rightarrow> res" where
  "returnCall req c m = \<lparr>code = c, msg = m\<rparr>"

text \<open>
  Modelled from the spec: \<open>returnKill\<close> is not in executor.go. A kill of a job that is not
  running is answered with the code given (500) and "not running".
\<close>

definition returnKill :: "killReq option \<Rightarrow> int64 \<Rightarrow> res" where
  "returnKill req c = \<lparr>code = c, msg = ''not running''\<rparr>"

text \<open>Modelled from the spec: \<open>returnGeneral\<close> is not in executor.go. Success is code 200.\<close>

definition returnGeneral :: res where
  "returnGeneral = \<lparr>code = 200, msg = []\<rparr>"

text \<open>
  Modelled from the spec: \<open>returnLog\<close> is not in executor.go. The log response envelope,
  with the code given; its content is outside the core.
\<close>

definition returnLog :: "'a \<Rightarrow> int64 \<Rightarrow> res" where
  "returnLog req c = \<lparr>code = c, msg = []\<rparr>"

text \<open>\<open>time.Second\<close>, in nanoseconds.\<close>

definition Second :: int64 where
  "Second = 1000000000"

subsection \<open>Init and RegTask\<close>

text \<open>\<open>Init\<close> makes both lists empty.\<close>

definition Init :: executor where
  "Init = \<lparr>regList = Map.empty, runList = Map.empty, store = (\<lambda>_. zero_Task),
           next_ref = 0, next_ctx = 0\<rparr>"

text \<open>\<open>RegTask\<close>: a new Task object holding the function, stored under the pattern.\<close>

definition RegTask :: "string \<Rightarrow> TaskFunc \<Rightarrow> executor \<Rightarrow> executor" where
  "RegTask pattern task e =
     (let t = next_ref e in
      e\<lparr>store := (store e)(t := zero_Task\<lparr>fn := Some task\<rparr>),
        next_ref := Suc t,
        regList := taskList_Set (regList e) pattern t\<rparr>)"

subsection \<open>runTask\<close>

text \<open>
  Lines 110 to 119: the context and its cancel function are made from the timeout, and
  written with the job id, the handler name and the request into the object that
  \<open>regList.Get\<close> returned.
\<close>

definition new_context :: "nat \<Rightarrow> int64 \<Rightarrow> Context" where
  "new_context n timeout =
     (if 0 <s timeout then WithTimeout n Background (timeout * Second)
      else WithCancel n Background)"

definition prepare :: "ref \<Rightarrow> RunReq \<Rightarrow> executor \<Rightarrow> executor" where
  "prepare task param e =
     (let n = next_ctx e in
      e\<lparr>store := (store e)(task := (store e task)
           \<lparr>Ext := Some (new_context n (ExecutorTimeout param)),
            Cancel := Some (CancelFunc n),
            Id_Task := JobID param,
            Name := ExecutorHandler param,
            Param := Some param\<rparr>),
        next_ctx := Suc n\<rparr>)"

text \<open>Lines 136 to 141: the task is set in the run list, started, and success is answered.\<close>

definition admit :: "ref \<Rightarrow> effect list \<Rightarrow> executor \<Rightarrow> result" where
  "admit task called e =
     Inr \<lparr>written = Some returnGeneral,
          effects = called @ [GoTaskRun task],
          after = e\<lparr>runList := taskList_Set (runList e) (Int64ToStr (Id_Task (store e task))) task\<rparr>\<rparr>"

text \<open>Lines 122 to 134: the blocking strategy.\<close>

definition block_strategy :: "ref \<Rightarrow> RunReq \<Rightarrow> executor \<Rightarrow> result" where
  "block_strategy task param e =
     (let key = Int64ToStr (Id_Task (store e task)) in
      if taskList_Exists (runList e) key then
        if ExecutorBlockStrategy param = coverEarly then
          (case taskList_Get (runList e) key of
             None \<Rightarrow> admit task [] e
           | Some oldTask \<Rightarrow>
               (case Cancel (store e oldTask) of
                  None \<Rightarrow> Inl NilPointerDereference
                | Some c \<Rightarrow>
                    admit task [CancelCalled c] (e\<lparr>runList := taskList_Del (runList e) key\<rparr>)))
        else
          Inr \<lparr>written = Some (returnCall (Some param) 500 ''There are tasks running''),
               effects = [], after = e\<rparr>
      else admit task [] e)"

text \<open>
  \<open>runTask\<close>. \<open>body\<close> is the pointer \<open>param\<close> as \<open>json.Unmarshal\<close> left it and
  \<open>err\<close> says whether it returned an error. The pointer is nil (\<open>None\<close>) after the
  body \<open>null\<close>, which parses without error; the first field access panics then.
\<close>

definition runTask :: "RunReq option \<Rightarrow> bool \<Rightarrow> executor \<Rightarrow> result" where
  "runTask body err e =
     (if err then
        Inr \<lparr>written = Some (returnCall body 500 ''params err''), effects = [], after = e\<rparr>
      else
        (case body of
           None \<Rightarrow> Inl NilPointerDereference
         | Some param \<Rightarrow>
             if \<not> taskList_Exists (regList e) (ExecutorHandler param) then
               Inr \<lparr>written = Some (returnCall body 500 ''Task not registered''),
                    effects = [], after = e\<rparr>
             else
               (case taskList_Get (regList e) (ExecutorHandler param) of
                  None \<Rightarrow> Inl NilPointerDereference
                | Some task \<Rightarrow> block_strategy task param (prepare task param e))))"

subsection \<open>killTask and taskLog\<close>

text \<open>
  \<open>killTask\<close> drops the error of \<open>json.Unmarshal\<close> and goes on with the structure that
  \<open>param\<close> points to; a nil pointer panics at the first field access.
\<close>

definition killTask :: "killReq option \<Rightarrow> bool \<Rightarrow> executor \<Rightarrow> result" where
  "killTask body err e =
     (case body of
        None \<Rightarrow> Inl NilPointerDereference
      | Some param \<Rightarrow>
          (let key = Int64ToStr (killJobID param) in
           if \<not> taskList_Exists (runList e) key then
             Inr \<lparr>written = Some (returnKill body 500), effects = [], after = e\<rparr>
           else
             (case taskList_Get (runList e) key of
                None \<Rightarrow> Inl NilPointerDereference
              | Some task \<Rightarrow>
                  (case Cancel (store e task) of
                     None \<Rightarrow> Inl NilPointerDereference
                   | Some c \<Rightarrow>
                       Inr \<lparr>written = Some returnGeneral, effects = [CancelCalled c],
                            after = e\<lparr>runList := taskList_Del (runList e) key\<rparr>\<rparr>))))"

text \<open>\<open>taskLog\<close> drops the error as well and always answers with code 200.\<close>

definition taskLog :: "'a \<Rightarrow> bool \<Rightarrow> executor \<Rightarrow> result" where
  "taskLog req err e = Inr \<lparr>written = Some (returnLog req 200), effects = [], after = e\<rparr>"

subsection \<open>post and callback\<close>

text \<open>
  \<open>post\<close> returns \<open>nil, err\<close> when \<open>http.NewRequest\<close> fails, and otherwise what
  \<open>client.Do\<close> returns. The two arguments are what the two library calls answer: whether
  building the request failed, and the pair of \<open>client.Do\<close> (the response, \<open>None\<close>
  when nil, and whether there is an error).
\<close>

definition post :: "bool \<Rightarrow> 'r option \<times> bool \<Rightarrow> 'r option \<times> bool" where
  "post request_failed answer = (if request_failed then (None, True) else answer)"

text \<open>
  \<open>callback\<close>, given the pair \<open>(res, err)\<close> that \<open>e.post\<close> returned. The error is only
  logged; then \<open>res.Body\<close> is read, which panics when \<open>res\<close> is nil, and only after that
  is the task deleted from the run list, under the id that the Task object holds then.
\<close>

definition callback :: "'r option \<times> bool \<Rightarrow> ref \<Rightarrow> int64 \<Rightarrow> string \<Rightarrow> executor \<Rightarrow> result" where
  "callback posted task c m e =
     (case fst posted of
        None \<Rightarrow> Inl NilPointerDereference
      | Some r \<Rightarrow>
          Inr \<lparr>written = None,
               effects = [Post ''/api/callback'' (returnCall (Param (store e task)) c m)],
               after = e\<lparr>runList := taskList_Del (runList e) (Int64ToStr (Id_Task (store e task)))\<rparr>\<rparr>)"

subsection \<open>Sequences of requests, reachable states\<close>

text \<open>One step after another: the next one runs on the state the previous one left.\<close>

definition then_do :: "result \<Rightarrow> (executor \<Rightarrow> result) \<Rightarrow> result" where
  "then_do r f = (case r of Inl p \<Rightarrow> Inl p | Inr out \<Rightarrow> f (after out))"

text \<open>Reading a Task object, or an entry of the run list, in the state an outcome leaves.\<close>

definition task_at :: "ref \<Rightarrow> outcome \<Rightarrow> Task" where
  "task_at t out = store (after out) t"

definition run_entry :: "string \<Rightarrow> outcome \<Rightarrow> ref option" where
  "run_entry k out = runList (after out) k"

text \<open>
  The states the executor can be in: after \<open>Init\<close>, any number of registrations and of
  handled requests and callbacks.
\<close>

inductive reachable :: "executor \<Rightarrow> bool" where
  reach_Init: "reachable Init"
| reach_RegTask: "reachable e \<Longrightarrow> reachable (RegTask pattern task e)"
| reach_runTask: "reachable e \<Longrightarrow> runTask body err e = Inr out \<Longrightarrow> reachable (after out)"
| reach_killTask: "reachable e \<Longrightarrow> killTask kbody err e = Inr out \<Longrightarrow> reachable (after out)"
| reach_callback:
    "reachable e \<Longrightarrow> callback (posted :: unit option \<times> bool) task c m e = Inr out
       \<Longrightarrow> reachable (after out)"

text \<open>
  What holds of every reachable state: the lists point at allocated Task objects, a task
  in the run list has a cancel function, and every cancel function in the store belongs to
  a context made earlier.
\<close>

definition consistent :: "executor \<Rightarrow> bool" where
  "consistent e \<longleftrightarrow>
     (\<forall>k t. regList e k = Some t \<longrightarrow> t < next_ref e) \<and>
     (\<forall>k t. runList e k = Some t \<longrightarrow> t < next_ref e \<and> Cancel (store e t) \<noteq> None) \<and>
     (\<forall>t n. Cancel (store e t) = Some (CancelFunc n) \<longrightarrow> n < next_ctx e)"

subsection \<open>Example states and requests\<close>

definition demo_executor :: executor where
  "demo_executor = RegTask ''other'' (TaskFunc 1) (RegTask ''demo'' (TaskFunc 0) Init)"

definition run_req :: "string \<Rightarrow> int64 \<Rightarrow> string \<Rightarrow> int64 \<Rightarrow> RunReq" where
  "run_req handler job strategy timeout =
     \<lparr>JobID = job, ExecutorHandler = handler, ExecutorParams = [],
      ExecutorBlockStrategy = strategy, ExecutorTimeout = timeout\<rparr>"

text \<open>
  The state after \<open>demo_executor\<close> has admitted a run of job 1 with handler "demo", no
  timeout and no blocking strategy (see \<open>runTask_demo\<close> below).
\<close>

definition running_executor :: executor where
  "running_executor =
     \<lparr>regList = [''demo'' \<mapsto> 0, ''other'' \<mapsto> 1],
      runList = [''1'' \<mapsto> 0],
      store = (\<lambda>_. zero_Task)
        (0 := \<lparr>Id_Task = 1, Name = ''demo'', Ext = Some (WithCancel 0 Background),
               Param = Some (run_req ''demo'' 1 [] 0), fn = Some (TaskFunc 0),
               Cancel = Some (CancelFunc 0)\<rparr>,
         1 := zero_Task\<lparr>fn := Some (TaskFunc 1)\<rparr>),
      next_ref = 2, next_ctx = 1\<rparr>"

text \<open>The state after \<open>running_executor\<close> has admitted a run of job 2 with the same handler.\<close>

definition two_jobs_executor :: executor where
  "two_jobs_executor =
     \<lparr>regList = [''demo'' \<mapsto> 0, ''other'' \<mapsto> 1],
      runList = [''1'' \<mapsto> 0, ''2'' \<mapsto> 0],
      store = (\<lambda>_. zero_Task)
        (0 := \<lparr>Id_Task = 2, Name = ''demo'', Ext = Some (WithCancel 1 Background),
               Param = Some (run_req ''demo'' 2 [] 0), fn = Some (TaskFunc 0),
               Cancel = Some (CancelFunc 1)\<rparr>,
         1 := zero_Task\<lparr>fn := Some (TaskFunc 1)\<rparr>),
      next_ref = 2, next_ctx = 2\<rparr>"

subsection \<open>Facts about the model\<close>

lemmas list_defs = taskList_Set_def taskList_Get_def taskList_Exists_def taskList_Del_def

lemma consistent_Init: "consistent Init"
  by (simp add: consistent_def Init_def zero_Task_def)

lemma consistent_RegTask: "consistent e \<Longrightarrow> consistent (RegTask pattern task e)"
  unfolding consistent_def RegTask_def Let_def list_defs
  by (auto simp: zero_Task_def less_Suc_eq)

lemma consistent_prepare:
  "consistent e \<Longrightarrow> regList e h = Some task \<Longrightarrow> consistent (prepare task param e)"
  unfolding consistent_def prepare_def Let_def
  by (auto simp: less_Suc_eq)

lemma consistent_admit:
  "consistent e \<Longrightarrow> regList e h = Some task \<Longrightarrow> Cancel (store e task) \<noteq> None
     \<Longrightarrow> admit task called e = Inr out \<Longrightarrow> consistent (after out)"
  unfolding consistent_def admit_def list_defs
  by (auto split: if_splits)

lemma consistent_Del:
  "consistent e \<Longrightarrow> consistent (e\<lparr>runList := taskList_Del (runList e) k\<rparr>)"
  unfolding consistent_def list_defs by (auto split: if_splits)

lemma Cancel_prepare: "Cancel (store (prepare task param e) task) = Some (CancelFunc (next_ctx e))"
  by (simp add: prepare_def Let_def)

lemma regList_prepare: "regList (prepare task param e) = regList e"
  by (simp add: prepare_def Let_def)

lemma runList_prepare: "runList (prepare task param e) = runList e"
  by (simp add: prepare_def Let_def)

lemma consistent_block_strategy:
  assumes "consistent e" and "regList e h = Some task" and "Cancel (store e task) \<noteq> None"
    and "block_strategy task param e = Inr out"
  shows "consistent (after out)"
proof -
  let ?key = "Int64ToStr (Id_Task (store e task))"
  let ?e' = "e\<lparr>runList := taskList_Del (runList e) ?key\<rparr>"
  have del: "consistent ?e'" "regList ?e' h = Some task" "Cancel (store ?e' task) \<noteq> None"
    using assms(1-3) by (simp_all add: consistent_Del)
  from assms(4) consider
      (fresh) "admit task [] e = Inr out"
    | (cover) c where "admit task [CancelCalled c] ?e' = Inr out"
    | (discard) "after out = e"
    by (auto simp: block_strategy_def Let_def split: if_splits option.splits)
  then show ?thesis
  proof cases
    case fresh
    then show ?thesis using assms(1-3) by (rule consistent_admit [rotated 3])
  next
    case cover
    then show ?thesis using del by (rule consistent_admit [rotated 3])
  next
    case discard
    then show ?thesis using assms(1) by simp
  qed
qed

lemma consistent_runTask_Some:
  assumes "consistent e" and "runTask (Some param) err e = Inr out"
  shows "consistent (after out)"
proof (cases "err \<or> regList e (ExecutorHandler param) = None")
  case True
  then have "after out = e"
    using assms(2) by (auto simp: runTask_def list_defs split: if_splits)
  then show ?thesis using assms(1) by simp
next
  case False
  then obtain task where t: "regList e (ExecutorHandler param) = Some task"
    by auto
  with False assms(2) have b: "block_strategy task param (prepare task param e) = Inr out"
    by (simp add: runTask_def list_defs)
  show ?thesis
    by (rule consistent_block_strategy [OF consistent_prepare [OF assms(1) t] _ _ b,
          of "ExecutorHandler param"])
       (simp_all add: regList_prepare t Cancel_prepare)
qed

lemma consistent_runTask:
  assumes "consistent e" and "runTask body err e = Inr out"
  shows "consistent (after out)"
proof (cases body)
  case None
  with assms(2) have "after out = e"
    by (auto simp: runTask_def split: if_splits)
  then show ?thesis using assms(1) by simp
next
  case (Some param)
  with assms show ?thesis by (simp add: consistent_runTask_Some)
qed

lemma consistent_killTask:
  assumes "consistent e" and "killTask kbody err e = Inr out"
  shows "consistent (after out)"
proof -
  from assms(2) have "after out = e \<or> (\<exists>k. after out = e\<lparr>runList := taskList_Del (runList e) k\<rparr>)"
    by (auto simp: killTask_def Let_def split: if_splits option.splits)
  then show ?thesis using assms(1) consistent_Del by auto
qed

lemma consistent_callback:
  assumes "consistent e" and "callback posted task c m e = Inr out"
  shows "consistent (after out)"
proof -
  from assms(2) have "\<exists>k. after out = e\<lparr>runList := taskList_Del (runList e) k\<rparr>"
    by (auto simp: callback_def split: option.splits)
  then show ?thesis using assms(1) consistent_Del by auto
qed

lemma reachable_consistent: "reachable e \<Longrightarrow> consistent e"
  by (induction rule: reachable.induct)
     (auto intro: consistent_Init consistent_RegTask consistent_runTask consistent_killTask
        consistent_callback)

lemma consistent_Cancel:
  "consistent e \<Longrightarrow> runList e k = Some t \<Longrightarrow> \<exists>c. Cancel (store e t) = Some c"
  by (simp add: consistent_def)

lemma block_strategy_returns:
  assumes "consistent e"
  shows "\<exists>out. block_strategy task param e = Inr out"
proof (cases "runList e (Int64ToStr (Id_Task (store e task)))")
  case None
  then show ?thesis by (simp add: block_strategy_def admit_def list_defs)
next
  case (Some old)
  with consistent_Cancel [OF assms Some] show ?thesis
    by (auto simp: block_strategy_def admit_def list_defs Let_def)
qed

lemma runTask_returns:
  assumes "consistent e"
  shows "\<exists>out. runTask (Some param) err e = Inr out"
proof (cases "regList e (ExecutorHandler param)")
  case None
  then show ?thesis by (simp add: runTask_def list_defs)
next
  case (Some task)
  from block_strategy_returns [OF consistent_prepare [OF assms Some]] Some
  show ?thesis by (simp add: runTask_def list_defs)
qed

lemma killTask_returns:
  assumes "consistent e"
  shows "\<exists>out. killTask (Some kparam) err e = Inr out"
proof (cases "runList e (Int64ToStr (killJobID kparam))")
  case None
  then show ?thesis by (simp add: killTask_def list_defs)
next
  case (Some task)
  with consistent_Cancel [OF assms Some] show ?thesis
    by (auto simp: killTask_def list_defs)
qed

lemma Int64ToStr_1: "Int64ToStr 1 = ''1''"
  by (simp add: Int64ToStr_def digit_char_def)

lemma Int64ToStr_2: "Int64ToStr 2 = ''2''"
  by (simp add: Int64ToStr_def digit_char_def)

lemma Int64ToStr_0: "Int64ToStr 0 = ''0''"
  by (simp add: Int64ToStr_def digit_char_def)

text \<open>Different job ids have different keys.\<close>

lemma digit_val_digit_char: "d < 10 \<Longrightarrow> digit_val (digit_char d) = d"
  by (auto simp: eval_nat_numeral less_Suc_eq digit_val_def digit_char_def)

lemma digit_char_not_minus: "d < 10 \<Longrightarrow> digit_char d \<noteq> CHR ''-''"
  by (auto simp: eval_nat_numeral less_Suc_eq digit_char_def)

lemma digits10_value: "foldl (\<lambda>a c. 10 * a + digit_val c) 0 (digits10 n) = n"
proof (induction n rule: digits10.induct)
  case (1 n)
  show ?case
  proof (cases "n < 10")
    case True
    then show ?thesis by (simp add: digit_val_digit_char)
  next
    case False
    with 1 show ?thesis
      by (subst digits10.simps) (simp add: digit_val_digit_char)
  qed
qed

lemma digits10_inject: "digits10 m = digits10 n \<Longrightarrow> m = n"
  by (metis digits10_value)

lemma digits10_no_minus: "CHR ''-'' \<notin> set (digits10 n)"
proof (induction n rule: digits10.induct)
  case (1 n)
  show ?case
  proof (cases "n < 10")
    case True
    then show ?thesis using digit_char_not_minus [of n] by simp
  next
    case False
    with 1 digit_char_not_minus [of "n mod 10"] show ?thesis
      by (subst digits10.simps) auto
  qed
qed

lemma Int64ToStr_inject: "Int64ToStr i = Int64ToStr j \<Longrightarrow> i = j"
proof -
  assume eq: "Int64ToStr i = Int64ToStr j"
  have no: "CHR ''-'' # xs \<noteq> digits10 n" for xs n
    using digits10_no_minus [of n] by (metis list.set_intros(1))
  have "sint i = sint j"
  proof (cases "sint i < 0"; cases "sint j < 0")
    assume "sint i < 0" "sint j < 0"
    with eq have "nat (- sint i) = nat (- sint j)"
      by (simp add: Int64ToStr_def digits10_inject)
    with \<open>sint i < 0\<close> \<open>sint j < 0\<close> show ?thesis by linarith
  next
    assume "sint i < 0" "\<not> sint j < 0"
    with eq no show ?thesis by (simp add: Int64ToStr_def)
  next
    assume "\<not> sint i < 0" "sint j < 0"
    with eq no [symmetric] show ?thesis by (simp add: Int64ToStr_def)
  next
    assume "\<not> sint i < 0" "\<not> sint j < 0"
    with eq have "nat (sint i) = nat (sint j)"
      by (simp add: Int64ToStr_def digits10_inject)
    with \<open>\<not> sint i < 0\<close> \<open>\<not> sint j < 0\<close> show ?thesis by linarith
  qed
  then show "i = j" by (rule signed_word_eqI)
qed

lemma runTask_demo:
  "runTask (Some (run_req ''demo'' 1 [] 0)) False demo_executor =
     Inr \<lparr>written = Some returnGeneral, effects = [GoTaskRun 0], after = running_executor\<rparr>"
  by (simp add: runTask_def block_strategy_def prepare_def admit_def new_context_def
        demo_executor_def running_executor_def run_req_def RegTask_def Init_def
        returnGeneral_def list_defs Let_def Int64ToStr_1 zero_Task_def fun_eq_iff word_sless_alt)

lemma reachable_demo: "reachable demo_executor"
  unfolding demo_executor_def by (intro reachable.intros)

lemma reachable_running: "reachable running_executor"
  using reach_runTask [OF reachable_demo runTask_demo] by simp

lemma consistent_running: "consistent running_executor"
  by (rule reachable_consistent [OF reachable_running])

lemma returnGeneral_not_500:
  "returnGeneral \<noteq> returnCall p 500 m" "returnCall p 500 m \<noteq> returnGeneral"
  by (simp_all add: returnGeneral_def returnCall_def)

lemma runTask_admitted:
  assumes "runTask (Some param) err e = Inr out" and "written out = Some returnGeneral"
  obtains task called where "regList e (ExecutorHandler param) = Some task"
    and "\<not> err"
    and "out = \<lparr>written = Some returnGeneral, effects = called @ [GoTaskRun task],
           after = (prepare task param e)\<lparr>runList := (runList e)(Int64ToStr (JobID param) \<mapsto> task)\<rparr>\<rparr>"
    and "called = [] \<or> (\<exists>old c. runList e (Int64ToStr (JobID param)) = Some old \<and>
            ExecutorBlockStrategy param = coverEarly \<and>
            Cancel (store (prepare task param e) old) = Some c \<and> called = [CancelCalled c])"
proof -
  from assms have ne: "\<not> err"
    by (auto simp: runTask_def returnGeneral_not_500 split: if_splits)
  from assms ne obtain task where t: "regList e (ExecutorHandler param) = Some task"
    and b: "block_strategy task param (prepare task param e) = Inr out"
    by (auto simp: runTask_def returnGeneral_not_500 list_defs split: if_splits option.splits)
  have id: "Id_Task (store (prepare task param e) task) = JobID param"
    by (simp add: prepare_def Let_def)
  from b assms(2) id have
    "\<exists>called. out = \<lparr>written = Some returnGeneral, effects = called @ [GoTaskRun task],
           after = (prepare task param e)\<lparr>runList := (runList e)(Int64ToStr (JobID param) \<mapsto> task)\<rparr>\<rparr> \<and>
       (called = [] \<or> (\<exists>old c. runList e (Int64ToStr (JobID param)) = Some old \<and>
            ExecutorBlockStrategy param = coverEarly \<and>
            Cancel (store (prepare task param e) old) = Some c \<and> called = [CancelCalled c]))"
    by (auto simp: block_strategy_def admit_def list_defs Let_def runList_prepare
          returnGeneral_not_500 split: if_splits option.splits)
  with t ne that show thesis by blast
qed

lemmas runTask_defs = runTask_def block_strategy_def prepare_def admit_def new_context_def
  returnGeneral_def returnCall_def list_defs Let_def

lemma runTask_demo_2:
  "runTask (Some (run_req ''demo'' 2 [] 0)) False running_executor =
     Inr \<lparr>written = Some returnGeneral, effects = [GoTaskRun 0], after = two_jobs_executor\<rparr>"
  by (simp add: runTask_defs running_executor_def two_jobs_executor_def run_req_def
        Int64ToStr_2 zero_Task_def fun_eq_iff word_sless_alt)

lemma seconds_no_overflow:
  fixes t :: int64
  assumes "0 < sint t" and "sint t \<le> 9223372036"
  shows "sint (t * Second) = sint t * 1000000000"
proof -
  have s: "sint Second = 1000000000" by (simp add: Second_def)
  have "sint (t * Second) = signed_take_bit 63 (sint t * sint Second)"
    by (simp add: sint_word_ariths)
  also have "\<dots> = sint t * 1000000000"
    unfolding s using assms by (intro signed_take_bit_int_eq_self) simp_all
  finally show ?thesis .
qed

lemma runTask_demo_5:
  "runTask (Some (run_req ''demo'' 2 [] 5)) False running_executor =
     Inr \<lparr>written = Some returnGeneral, effects = [GoTaskRun 0],
          after = running_executor\<lparr>
            runList := [''1'' \<mapsto> 0, ''2'' \<mapsto> 0],
            store := (store running_executor)
              (0 := \<lparr>Id_Task = 2, Name = ''demo'', Ext = Some (WithTimeout 1 Background 5000000000),
                     Param = Some (run_req ''demo'' 2 [] 5), fn = Some (TaskFunc 0),
                     Cancel = Some (CancelFunc 1)\<rparr>),
            next_ctx := 2\<rparr>\<rparr>"
  by (simp add: runTask_defs running_executor_def run_req_def Second_def
        Int64ToStr_2 zero_Task_def fun_eq_iff word_sless_alt)

lemma runTask_regList: "runTask (Some param) err e = Inr out \<Longrightarrow> regList (after out) = regList e"
  by (auto simp: runTask_def block_strategy_def admit_def prepare_def Let_def
        split: if_splits option.splits)

lemma runTask_store:
  assumes "runTask (Some param) err e = Inr out"
  shows "store (after out) = store e \<or>
         (\<exists>task. \<not> err \<and> regList e (ExecutorHandler param) = Some task \<and>
            store (after out) = store (prepare task param e))"
  using assms
  by (auto simp: runTask_def block_strategy_def admit_def list_defs Let_def
        split: if_splits option.splits)

lemma prepare_store_other: "t \<noteq> task \<Longrightarrow> store (prepare task param e) t = store e t"
  by (simp add: prepare_def Let_def)

lemma prepare_fn: "fn (store (prepare task param e) t) = fn (store e t)"
  by (simp add: prepare_def Let_def)

lemma killTask_frame:
  "killTask (Some kparam) err e = Inr out \<Longrightarrow> regList (after out) = regList e \<and> store (after out) = store e"
  by (auto simp: killTask_def Let_def split: if_splits option.splits)

lemma killTask_running:
  "killTask (Some \<lparr>killJobID = 1\<rparr>) False running_executor =
     Inr \<lparr>written = Some returnGeneral, effects = [CancelCalled (CancelFunc 0)],
          after = running_executor\<lparr>runList := Map.empty\<rparr>\<rparr>"
  by (simp add: killTask_def list_defs Int64ToStr_1 running_executor_def)

text \<open>
  What \<open>runTask\<close> does on a conflict, in general. Under the covering strategy the cancel
  function called is read from the old task after the new request has been written into
  the registered object: when both are the same object, it is the new one. Otherwise the
  request is rejected, after the same writes.
\<close>

lemma runTask_cover:
  assumes "regList e (ExecutorHandler param) = Some task"
    and "runList e (Int64ToStr (JobID param)) = Some old"
    and "ExecutorBlockStrategy param = coverEarly"
    and "Cancel (store e old) = Some c"
  shows "runTask (Some param) False e =
     Inr \<lparr>written = Some returnGeneral,
          effects = [CancelCalled (if old = task then CancelFunc (next_ctx e) else c),
                     GoTaskRun task],
          after = (prepare task param e)
            \<lparr>runList := (runList e)(Int64ToStr (JobID param) \<mapsto> task)\<rparr>\<rparr>"
proof -
  have id: "Id_Task (store (prepare task param e) task) = JobID param"
    by (simp add: prepare_def Let_def)
  have c: "Cancel (store (prepare task param e) old) =
      Some (if old = task then CancelFunc (next_ctx e) else c)"
    using assms(4) by (simp add: prepare_def Let_def)
  show ?thesis
    using assms(1-3)
    by (simp add: runTask_def block_strategy_def admit_def list_defs Let_def id c runList_prepare)
qed

lemma runTask_discard:
  assumes "regList e (ExecutorHandler param) = Some task"
    and "runList e (Int64ToStr (JobID param)) = Some old"
    and "ExecutorBlockStrategy param \<noteq> coverEarly"
  shows "runTask (Some param) False e =
     Inr \<lparr>written = Some (returnCall (Some param) 500 ''There are tasks running''),
          effects = [], after = prepare task param e\<rparr>"
proof -
  have id: "Id_Task (store (prepare task param e) task) = JobID param"
    by (simp add: prepare_def Let_def)
  show ?thesis
    using assms
    by (simp add: runTask_def block_strategy_def list_defs Let_def id runList_prepare)
qed



subsection \<open>Properties\<close>

text \<open>
  C8. A run request that parsed and names a handler that is not in the registered list is
  answered with code 500 and "Task not registered"; nothing is started or cancelled and
  the executor, with both lists and every Task object, is as before.
\<close>

theorem runTask_not_registered:
  assumes "regList e (ExecutorHandler param) = None"
  shows "runTask (Some param) False e =
           Inr \<lparr>written = Some \<lparr>code = 500, msg = ''Task not registered''\<rparr>,
                effects = [], after = e\<rparr>"
  using assms by (simp add: runTask_def taskList_Exists_def returnCall_def)

theorem runTask_not_registered_witness:
  "regList running_executor (ExecutorHandler (run_req ''ghost'' 2 [] 0)) = None \<and>
   runTask (Some (run_req ''ghost'' 2 [] 0)) False running_executor =
     Inr \<lparr>written = Some \<lparr>code = 500, msg = ''Task not registered''\<rparr>,
          effects = [], after = running_executor\<rparr>"
proof -
  have h: "regList running_executor (ExecutorHandler (run_req ''ghost'' 2 [] 0)) = None"
    by (simp add: running_executor_def run_req_def)
  show ?thesis using h runTask_not_registered [OF h] by simp
qed




text \<open>
  C10. The log endpoint answers every request with code 200, whether or not the body
  parsed, calls nothing and leaves the executor, both lists included, unchanged.
\<close>

theorem taskLog_always_200:
  "taskLog req err e = Inr \<lparr>written = Some (returnLog req 200), effects = [], after = e\<rparr> \<and>
   code (returnLog req 200) = 200"
  by (simp add: taskLog_def returnLog_def)

text \<open>
  C4. When a run request is admitted (answered with the success body) in a state that is
  \<open>consistent\<close>, as every reachable state is, the run list holds, under the request's job id, the very Task object that the registered
  list holds under the request's handler name. That object now carries the request's job
  id, the request itself as parameters, and the cancel function of a context made for this
  request, which the object did not hold before. Every key of the run list that pointed
  at this object before still points at it, so the entries of earlier runs of the same
  handler show the new job id, parameters and cancel function.
\<close>

theorem runTask_admits_registered_object:
  assumes "consistent e" and "runTask (Some param) err e = Inr out"
    and "written out = Some returnGeneral"
  shows "\<exists>task. regList (after out) (ExecutorHandler param) = Some task \<and>
           runList (after out) (Int64ToStr (JobID param)) = Some task \<and>
           Id_Task (store (after out) task) = JobID param \<and>
           Param (store (after out) task) = Some param \<and>
           Cancel (store (after out) task) = Some (CancelFunc (next_ctx e)) \<and>
           Cancel (store e task) \<noteq> Some (CancelFunc (next_ctx e)) \<and>
           (\<forall>k. runList e k = Some task \<longrightarrow> runList (after out) k = Some task)"
proof -
  from assms(2,3) obtain task called where t: "regList e (ExecutorHandler param) = Some task"
    and out: "out = \<lparr>written = Some returnGeneral, effects = called @ [GoTaskRun task],
           after = (prepare task param e)\<lparr>runList := (runList e)(Int64ToStr (JobID param) \<mapsto> task)\<rparr>\<rparr>"
    by (rule runTask_admitted)
  have fresh: "Cancel (store e task) \<noteq> Some (CancelFunc (next_ctx e))"
    using assms(1) by (auto simp: consistent_def)
  have "Id_Task (store (prepare task param e) task) = JobID param"
    and "Param (store (prepare task param e) task) = Some param"
    by (simp_all add: prepare_def Let_def)
  with t fresh show ?thesis
    by (intro exI [of _ task]) (simp add: out regList_prepare Cancel_prepare)
qed

theorem runTask_admits_registered_object_witness:
  "consistent running_executor \<and>
   runTask (Some (run_req ''demo'' 2 [] 0)) False running_executor =
     Inr \<lparr>written = Some returnGeneral, effects = [GoTaskRun 0], after = two_jobs_executor\<rparr> \<and>
   regList two_jobs_executor ''demo'' = Some 0 \<and>
   runList two_jobs_executor ''2'' = Some 0 \<and>
   runList running_executor ''1'' = Some 0 \<and>
   runList two_jobs_executor ''1'' = Some 0 \<and>
   Id_Task (store running_executor 0) = 1 \<and>
   Id_Task (store two_jobs_executor 0) = 2 \<and>
   Cancel (store running_executor 0) = Some (CancelFunc 0) \<and>
   Cancel (store two_jobs_executor 0) = Some (CancelFunc 1)"
proof -
  let ?out = "\<lparr>written = Some returnGeneral, effects = [GoTaskRun 0], after = two_jobs_executor\<rparr>"
  have w: "written ?out = Some returnGeneral" by simp
  from runTask_admits_registered_object [OF consistent_running runTask_demo_2 w]
  obtain task where "regList two_jobs_executor ''demo'' = Some task"
    and "runList two_jobs_executor (Int64ToStr 2) = Some task"
    and "Id_Task (store two_jobs_executor task) = 2"
    and "Cancel (store two_jobs_executor task) = Some (CancelFunc (next_ctx running_executor))"
    and "\<forall>k. runList running_executor k = Some task \<longrightarrow> runList two_jobs_executor k = Some task"
    by (auto simp: run_req_def)
  moreover have "regList two_jobs_executor ''demo'' = Some 0"
    by (simp add: two_jobs_executor_def)
  moreover have "runList running_executor ''1'' = Some 0"
    "Id_Task (store running_executor 0) = 1"
    "Cancel (store running_executor 0) = Some (CancelFunc 0)"
    "next_ctx running_executor = 1"
    by (simp_all add: running_executor_def)
  ultimately show ?thesis
    using consistent_running runTask_demo_2 by (simp add: Int64ToStr_2)
qed

text \<open>
  C9, as amended. When a run request is admitted, the task that is started is the object
  registered under the handler name; its cancel function cancels the context made for this
  request, and that context is its \<open>Ext\<close>. If the timeout is positive and at most
  9223372036 seconds, the context is a \<open>WithTimeout\<close> of exactly that many seconds (in
  nanoseconds, without wrap-around); if the timeout is zero or negative, it is a
  \<open>WithCancel\<close>, which ends only when its cancel function is called.
\<close>

theorem runTask_context_from_timeout:
  assumes "runTask (Some param) err e = Inr out" and "written out = Some returnGeneral"
  shows "\<exists>task. regList e (ExecutorHandler param) = Some task \<and>
           GoTaskRun task \<in> set (effects out) \<and>
           Cancel (store (after out) task) = Some (CancelFunc (next_ctx e)) \<and>
           (0 < sint (ExecutorTimeout param) \<and> sint (ExecutorTimeout param) \<le> 9223372036 \<longrightarrow>
              (\<exists>d. Ext (store (after out) task) = Some (WithTimeout (next_ctx e) Background d) \<and>
                   sint d = sint (ExecutorTimeout param) * 1000000000)) \<and>
           (sint (ExecutorTimeout param) \<le> 0 \<longrightarrow>
              Ext (store (after out) task) = Some (WithCancel (next_ctx e) Background))"
proof -
  from assms obtain task called where t: "regList e (ExecutorHandler param) = Some task"
    and out: "out = \<lparr>written = Some returnGeneral, effects = called @ [GoTaskRun task],
           after = (prepare task param e)\<lparr>runList := (runList e)(Int64ToStr (JobID param) \<mapsto> task)\<rparr>\<rparr>"
    by (rule runTask_admitted)
  have ext: "Ext (store (after out) task) = Some (new_context (next_ctx e) (ExecutorTimeout param))"
    by (simp add: out prepare_def Let_def)
  have pos: "\<exists>d. new_context n (ExecutorTimeout param) = WithTimeout n Background d \<and>
                sint d = sint (ExecutorTimeout param) * 1000000000"
    if "0 < sint (ExecutorTimeout param)" "sint (ExecutorTimeout param) \<le> 9223372036" for n
    using that seconds_no_overflow [OF that] by (simp add: new_context_def word_sless_alt)
  have neg: "new_context n (ExecutorTimeout param) = WithCancel n Background"
    if "sint (ExecutorTimeout param) \<le> 0" for n
    using that by (simp add: new_context_def word_sless_alt)
  show ?thesis
    using t pos neg by (intro exI [of _ task]) (simp add: ext, simp add: out Cancel_prepare)
qed

text \<open>
  As the specification states it, the property fails for a larger timeout: \<open>time.Duration(timeout) * time.Second\<close>
  wraps around in 64 bits. With a timeout of 9223372037 seconds the admitted task gets a
  \<open>WithTimeout\<close> whose duration is negative, a deadline that has passed already.
\<close>

theorem runTask_context_from_timeout_counterexample:
  "0 < sint (ExecutorTimeout (run_req ''demo'' 2 [] 9223372037)) \<and>
   map_sum id written (runTask (Some (run_req ''demo'' 2 [] 9223372037)) False running_executor) =
     Inr (Some returnGeneral) \<and>
   map_sum id (Ext \<circ> task_at 0) (runTask (Some (run_req ''demo'' 2 [] 9223372037)) False running_executor) =
     Inr (Some (WithTimeout 1 Background 9223372037000000000)) \<and>
   sint (9223372037000000000 :: int64) = - 9223372036709551616"
  by (simp add: runTask_defs running_executor_def run_req_def Second_def task_at_def
        Int64ToStr_2 zero_Task_def word_sless_alt)

theorem runTask_context_from_timeout_witness:
  "runTask (Some (run_req ''demo'' 2 [] 5)) False running_executor =
     Inr \<lparr>written = Some returnGeneral, effects = [GoTaskRun 0],
          after = running_executor\<lparr>
            runList := [''1'' \<mapsto> 0, ''2'' \<mapsto> 0],
            store := (store running_executor)
              (0 := \<lparr>Id_Task = 2, Name = ''demo'', Ext = Some (WithTimeout 1 Background 5000000000),
                     Param = Some (run_req ''demo'' 2 [] 5), fn = Some (TaskFunc 0),
                     Cancel = Some (CancelFunc 1)\<rparr>),
            next_ctx := 2\<rparr>\<rparr> \<and>
   0 < sint (ExecutorTimeout (run_req ''demo'' 2 [] 5)) \<and>
   sint (ExecutorTimeout (run_req ''demo'' 2 [] 5)) \<le> 9223372036 \<and>
   sint (5000000000 :: int64) = 5 * 1000000000 \<and>
   runTask (Some (run_req ''demo'' 2 [] 0)) False running_executor =
     Inr \<lparr>written = Some returnGeneral, effects = [GoTaskRun 0], after = two_jobs_executor\<rparr> \<and>
   sint (ExecutorTimeout (run_req ''demo'' 2 [] 0)) \<le> 0 \<and>
   Ext (store two_jobs_executor 0) = Some (WithCancel 1 Background)"
proof -
  have w: "written \<lparr>written = Some returnGeneral, effects = fx, after = x\<rparr> = Some returnGeneral"
    for fx x by simp
  have d: "regList running_executor ''demo'' = Some 0" "next_ctx running_executor = 1"
    by (simp_all add: running_executor_def)
  have t5: "0 < sint (ExecutorTimeout (run_req ''demo'' 2 [] 5))"
    "sint (ExecutorTimeout (run_req ''demo'' 2 [] 5)) \<le> 9223372036"
    and t0: "sint (ExecutorTimeout (run_req ''demo'' 2 [] 0)) \<le> 0"
    by (simp_all add: run_req_def)
  from runTask_context_from_timeout [OF runTask_demo_5 w] d t5
  have "sint (5000000000 :: int64) = 5 * 1000000000"
    by (auto simp: run_req_def)
  moreover from runTask_context_from_timeout [OF runTask_demo_2 w] d t0
  have "Ext (store two_jobs_executor 0) = Some (WithCancel 1 Background)"
    by (auto simp: run_req_def)
  ultimately show ?thesis
    using runTask_demo_5 runTask_demo_2 t5 t0 by simp
qed

text \<open>
  C3, as amended. Handling a kill or a log request changes no Task object and no entry of
  the registered list. Handling a run request never changes which object a name is
  registered to, nor the function \<open>fn\<close> of any object, nor any object other than the one
  registered under the request's handler name; when the body did not parse or the handler
  is not registered, no object changes at all. \<open>RegTask\<close> binds the name to a new object
  that holds the function.
\<close>

theorem registered_tasks_frame:
  "(runTask (Some param) err e = Inr out \<longrightarrow>
      regList (after out) = regList e \<and>
      (\<forall>t. fn (store (after out) t) = fn (store e t)) \<and>
      (\<forall>t. regList e (ExecutorHandler param) \<noteq> Some t \<longrightarrow> store (after out) t = store e t) \<and>
      (err \<or> regList e (ExecutorHandler param) = None \<longrightarrow> store (after out) = store e)) \<and>
   (killTask (Some kparam) kerr e = Inr kout \<longrightarrow>
      regList (after kout) = regList e \<and> store (after kout) = store e) \<and>
   (taskLog req lerr e = Inr lout \<longrightarrow>
      regList (after lout) = regList e \<and> store (after lout) = store e) \<and>
   regList (RegTask pattern task e) = (regList e)(pattern \<mapsto> next_ref e) \<and>
   fn (store (RegTask pattern task e) (next_ref e)) = Some task"
proof (intro conjI impI allI)
  assume r: "runTask (Some param) err e = Inr out"
  from runTask_regList [OF r] show "regList (after out) = regList e" .
  from runTask_store [OF r] show "fn (store (after out) t) = fn (store e t)" for t
    by (auto simp: prepare_fn)
  from runTask_store [OF r]
  show "store (after out) t = store e t" if "regList e (ExecutorHandler param) \<noteq> Some t" for t
    using that by (auto simp: prepare_store_other)
  from runTask_store [OF r]
  show "store (after out) = store e" if "err \<or> regList e (ExecutorHandler param) = None"
    using that by auto
next
  assume k: "killTask (Some kparam) kerr e = Inr kout"
  from killTask_frame [OF k] show "regList (after kout) = regList e"
    and "store (after kout) = store e" by simp_all
next
  assume l: "taskLog req lerr e = Inr lout"
  then show "regList (after lout) = regList e" and "store (after lout) = store e"
    by (auto simp: taskLog_def)
next
  show "regList (RegTask pattern task e) = (regList e)(pattern \<mapsto> next_ref e)"
    and "fn (store (RegTask pattern task e) (next_ref e)) = Some task"
    by (simp_all add: RegTask_def Let_def list_defs)
qed

text \<open>
  As the specification states it, the property fails: a run request writes into the registered object. Before the
  request the object registered as "demo" is the zero Task with its function; after it, the
  object carries the job id, the name, the context, the request and the cancel function.
\<close>

theorem registered_tasks_frame_counterexample:
  "regList demo_executor ''demo'' = Some 0 \<and>
   store demo_executor 0 =
     \<lparr>Id_Task = 0, Name = [], Ext = None, Param = None, fn = Some (TaskFunc 0), Cancel = None\<rparr> \<and>
   map_sum id (task_at 0) (runTask (Some (run_req ''demo'' 1 [] 0)) False demo_executor) =
     Inr \<lparr>Id_Task = 1, Name = ''demo'', Ext = Some (WithCancel 0 Background),
          Param = Some (run_req ''demo'' 1 [] 0), fn = Some (TaskFunc 0),
          Cancel = Some (CancelFunc 0)\<rparr>"
  by (simp add: runTask_demo task_at_def)
     (simp add: demo_executor_def running_executor_def RegTask_def Init_def zero_Task_def
        list_defs Let_def)

theorem registered_tasks_frame_witness:
  "runTask (Some (run_req ''demo'' 1 [] 0)) False demo_executor =
     Inr \<lparr>written = Some returnGeneral, effects = [GoTaskRun 0],
          after = running_executor\<rparr> \<and>
   regList running_executor = regList demo_executor \<and>
   fn (store running_executor 0) = fn (store demo_executor 0) \<and>
   regList demo_executor (ExecutorHandler (run_req ''demo'' 1 [] 0)) \<noteq> Some 1 \<and>
   store running_executor 1 = store demo_executor 1 \<and>
   killTask (Some \<lparr>killJobID = 1\<rparr>) False running_executor =
     Inr \<lparr>written = Some returnGeneral, effects = [CancelCalled (CancelFunc 0)],
          after = running_executor\<lparr>runList := Map.empty\<rparr>\<rparr> \<and>
   store (running_executor\<lparr>runList := Map.empty\<rparr>) = store running_executor \<and>
   taskLog () False running_executor =
     Inr \<lparr>written = Some (returnLog () 200), effects = [], after = running_executor\<rparr>"
proof -
  have other: "regList demo_executor (ExecutorHandler (run_req ''demo'' 1 [] 0)) \<noteq> Some 1"
    by (simp add: demo_executor_def run_req_def RegTask_def Init_def list_defs Let_def)
  have lg: "taskLog () False running_executor =
     Inr \<lparr>written = Some (returnLog () 200), effects = [], after = running_executor\<rparr>"
    by (simp add: taskLog_def)
  from registered_tasks_frame [where param = "run_req ''demo'' 1 [] 0" and err = False
      and e = demo_executor
      and out = "\<lparr>written = Some returnGeneral, effects = [GoTaskRun 0],
          after = running_executor\<rparr>", THEN conjunct1, THEN mp, OF runTask_demo]
    other
  have "regList running_executor = regList demo_executor"
    and "fn (store running_executor 0) = fn (store demo_executor 0)"
    and "store running_executor 1 = store demo_executor 1"
    by simp_all
  moreover
  from registered_tasks_frame [where kparam = "\<lparr>killJobID = 1\<rparr>" and kerr = False
      and e = running_executor
      and kout = "\<lparr>written = Some returnGeneral, effects = [CancelCalled (CancelFunc 0)],
          after = running_executor\<lparr>runList := Map.empty\<rparr>\<rparr>",
      THEN conjunct2, THEN conjunct1, THEN mp, OF killTask_running]
  have "store (running_executor\<lparr>runList := Map.empty\<rparr>) = store running_executor"
    by simp
  ultimately show ?thesis
    using runTask_demo killTask_running other lg by simp
qed

text \<open>
  C6, as amended. A run request whose body did not parse is answered with code 500 and
  "params err", nothing is called and the executor is unchanged. A log request whose body
  did not parse changes nothing and calls nothing either, but is answered with code 200.
  A kill request whose body did not parse is handled like any other, with the job id that
  the decoder left in the structure: when no task runs under that id, the answer is code
  500 and the executor is unchanged.
\<close>

theorem unparseable_body:
  "runTask body True e =
     Inr \<lparr>written = Some \<lparr>code = 500, msg = ''params err''\<rparr>, effects = [], after = e\<rparr> \<and>
   taskLog req True e =
     Inr \<lparr>written = Some (returnLog req 200), effects = [], after = e\<rparr> \<and>
   code (returnLog req 200) = 200 \<and>
   code (returnKill (Some kparam) 500) = 500 \<and>
   (runList e (Int64ToStr (killJobID kparam)) = None \<longrightarrow>
      killTask (Some kparam) True e =
        Inr \<lparr>written = Some (returnKill (Some kparam) 500), effects = [], after = e\<rparr>)"
  by (simp add: runTask_def taskLog_def killTask_def returnCall_def returnLog_def returnKill_def
        list_defs)

theorem unparseable_body_witness:
  "runList running_executor (Int64ToStr (killJobID \<lparr>killJobID = 0\<rparr>)) = None \<and>
   killTask (Some \<lparr>killJobID = 0\<rparr>) True running_executor =
     Inr \<lparr>written = Some (returnKill (Some \<lparr>killJobID = 0\<rparr>) 500), effects = [],
          after = running_executor\<rparr> \<and>
   runTask (Some (run_req [] 0 [] 0)) True running_executor =
     Inr \<lparr>written = Some \<lparr>code = 500, msg = ''params err''\<rparr>, effects = [],
          after = running_executor\<rparr>"
proof -
  have h: "runList running_executor (Int64ToStr (killJobID \<lparr>killJobID = 0\<rparr>)) = None"
    by (simp add: running_executor_def Int64ToStr_0)
  from unparseable_body [of "Some (run_req [] 0 [] 0)" running_executor "()" "\<lparr>killJobID = 0\<rparr>"] h
  show ?thesis by simp
qed

text \<open>
  As the specification states it, the property fails for log and for kill: the log endpoint answers 200, and a kill
  request whose body did not parse, its job id left at zero, cancels and removes the task
  that runs as job 0 and answers 200.
\<close>

theorem unparseable_body_counterexample:
  "map_sum id (map_option code \<circ> written) (taskLog () True running_executor) = Inr (Some 200) \<and>
   map_sum id (run_entry ''0'') (runTask (Some (run_req ''demo'' 0 [] 0)) False demo_executor) =
     Inr (Some 0) \<and>
   map_sum id (map_option code \<circ> written)
     (then_do (runTask (Some (run_req ''demo'' 0 [] 0)) False demo_executor)
       (killTask (Some \<lparr>killJobID = 0\<rparr>) True)) = Inr (Some 200) \<and>
   map_sum id effects (then_do (runTask (Some (run_req ''demo'' 0 [] 0)) False demo_executor)
       (killTask (Some \<lparr>killJobID = 0\<rparr>) True)) = Inr [CancelCalled (CancelFunc 0)] \<and>
   map_sum id (run_entry ''0'') (then_do (runTask (Some (run_req ''demo'' 0 [] 0)) False demo_executor)
       (killTask (Some \<lparr>killJobID = 0\<rparr>) True)) = Inr None"
  by (simp add: taskLog_def returnLog_def runTask_defs killTask_def then_do_def run_entry_def
        demo_executor_def run_req_def RegTask_def Init_def Int64ToStr_0 zero_Task_def
        word_sless_alt)

text \<open>
  C1. The entry of an admitted task is to be removed from the run list when its callback
  runs, whether the callback is delivered to the scheduler or not, a failed delivery being
  only logged. The code does not do that. Job 1 is running and its handler finishes, but the
  callback cannot be delivered, \<open>post\<close> returning a nil response with an error (either
  because the request could not be built or because \<open>client.Do\<close> failed). \<open>callback\<close>
  panics on \<open>res.Body\<close> before it reaches \<open>runList.Del\<close>; the entry of job 1 is not
  removed. With a response it is removed. The key that is deleted is the id the shared Task
  object holds when the callback runs: with jobs 1 and 2 of the same handler running, a
  delivered callback deletes the entry of job 2 and leaves that of job 1.
\<close>

theorem callback_post_failed:
  "map_sum id (run_entry ''1'') (runTask (Some (run_req ''demo'' 1 [] 0)) False demo_executor) =
     Inr (Some 0) \<and>
   post False (None :: unit option, True) = (None, True) \<and>
   then_do (runTask (Some (run_req ''demo'' 1 [] 0)) False demo_executor)
     (callback (post False (None :: unit option, True)) 0 200 ''ok'') =
     Inl NilPointerDereference \<and>
   then_do (runTask (Some (run_req ''demo'' 1 [] 0)) False demo_executor)
     (callback (post True (Some (), False)) 0 200 ''ok'') =
     Inl NilPointerDereference \<and>
   map_sum id (run_entry ''1'')
     (then_do (runTask (Some (run_req ''demo'' 1 [] 0)) False demo_executor)
        (callback (post False (Some (), False)) 0 200 ''ok'')) = Inr None \<and>
   map_sum id (run_entry ''1'')
     (callback (post False (Some (), False)) 0 200 ''ok'' two_jobs_executor) = Inr (Some 0) \<and>
   map_sum id (run_entry ''2'')
     (callback (post False (Some (), False)) 0 200 ''ok'' two_jobs_executor) = Inr None"
  by (simp add: runTask_demo then_do_def run_entry_def callback_def post_def list_defs)
     (simp add: running_executor_def two_jobs_executor_def Int64ToStr_1 Int64ToStr_2)

text \<open>
  C2. A run request with the covering strategy for a job that is running is to call, once,
  the cancel function made when the running instance was admitted, to remove the old entry
  and to admit the new instance. The code calls another cancel function when the request
  names the handler of the running instance. Job 1 runs with handler "demo" and holds the
  cancel function of context 0; a second run request for job 1 and the same handler arrives with
  the covering strategy. The cancel function that is called is that of context 1, the
  context just made for the new request and handed to the new run; the cancel function of
  context 0 is not called.
\<close>

theorem runTask_cover_cancels_new_context:
  "map_sum id (task_at 0) (runTask (Some (run_req ''demo'' 1 [] 0)) False demo_executor) =
     Inr \<lparr>Id_Task = 1, Name = ''demo'', Ext = Some (WithCancel 0 Background),
          Param = Some (run_req ''demo'' 1 [] 0), fn = Some (TaskFunc 0),
          Cancel = Some (CancelFunc 0)\<rparr> \<and>
   map_sum id written
     (then_do (runTask (Some (run_req ''demo'' 1 [] 0)) False demo_executor)
        (runTask (Some (run_req ''demo'' 1 coverEarly 0)) False)) = Inr (Some returnGeneral) \<and>
   map_sum id effects
     (then_do (runTask (Some (run_req ''demo'' 1 [] 0)) False demo_executor)
        (runTask (Some (run_req ''demo'' 1 coverEarly 0)) False)) =
     Inr [CancelCalled (CancelFunc 1), GoTaskRun 0] \<and>
   map_sum id (task_at 0)
     (then_do (runTask (Some (run_req ''demo'' 1 [] 0)) False demo_executor)
        (runTask (Some (run_req ''demo'' 1 coverEarly 0)) False)) =
     Inr \<lparr>Id_Task = 1, Name = ''demo'', Ext = Some (WithCancel 1 Background),
          Param = Some (run_req ''demo'' 1 coverEarly 0), fn = Some (TaskFunc 0),
          Cancel = Some (CancelFunc 1)\<rparr>"
  by (simp add: runTask_demo then_do_def)
     (simp add: runTask_defs running_executor_def run_req_def Int64ToStr_1 zero_Task_def
        task_at_def word_sless_alt)

text \<open>
  C5. A run request with any other strategy for a job that is running is to be rejected
  with code 500 and "There are tasks running", without a change to either list and without
  a call of the running instance's cancel function. The code rejects it and calls nothing,
  but it has changed the running instance by then. Job 1 runs with handler "demo"; a second
  run request
  for job 1 and the same handler arrives with an empty blocking strategy and a timeout of
  5 seconds. It is answered with code 500 and "There are tasks running" and nothing is
  called, but the Task object that both lists hold has been overwritten with the context,
  the cancel function and the parameters of the rejected request. A kill of job 1 after
  that calls the cancel function of context 1, not that of context 0.
\<close>

theorem runTask_discard_overwrites_task:
  "store running_executor 0 =
     \<lparr>Id_Task = 1, Name = ''demo'', Ext = Some (WithCancel 0 Background),
      Param = Some (run_req ''demo'' 1 [] 0), fn = Some (TaskFunc 0),
      Cancel = Some (CancelFunc 0)\<rparr> \<and>
   runList running_executor ''1'' = Some 0 \<and>
   map_sum id written (runTask (Some (run_req ''demo'' 1 [] 5)) False running_executor) =
     Inr (Some \<lparr>code = 500, msg = ''There are tasks running''\<rparr>) \<and>
   map_sum id effects (runTask (Some (run_req ''demo'' 1 [] 5)) False running_executor) = Inr [] \<and>
   map_sum id (run_entry ''1'') (runTask (Some (run_req ''demo'' 1 [] 5)) False running_executor) =
     Inr (Some 0) \<and>
   map_sum id (task_at 0) (runTask (Some (run_req ''demo'' 1 [] 5)) False running_executor) =
     Inr \<lparr>Id_Task = 1, Name = ''demo'', Ext = Some (WithTimeout 1 Background 5000000000),
          Param = Some (run_req ''demo'' 1 [] 5), fn = Some (TaskFunc 0),
          Cancel = Some (CancelFunc 1)\<rparr> \<and>
   map_sum id effects
     (then_do (runTask (Some (run_req ''demo'' 1 [] 5)) False running_executor)
        (killTask (Some \<lparr>killJobID = 1\<rparr>) False)) = Inr [CancelCalled (CancelFunc 1)]"
  by (simp add: runTask_defs killTask_def then_do_def task_at_def run_entry_def
        running_executor_def run_req_def Int64ToStr_1 zero_Task_def coverEarly_def Second_def
        word_sless_alt)

end
